theory Spec2Isabelle
  imports Main
begin

section \<open>The editor command factory (menu-commands)\<close>

text \<open>
  A shallow embedding of the command factory of the text editor: the module that maps a
  menu action of the editor (bold, italic, heading levels, block quote, lists, link) to a
  ProseMirror command, through the table \<open>commandMapping\<close>, and the class
  \<open>MenuCommandFactory\<close> with its methods \<open>getCommand\<close> and \<open>buildKeymap\<close>.

  The ProseMirror library is external. Its mark types and node types are opaque handles
  (the type variables \<open>'m\<close> and \<open>'n\<close>), and the commands its functions
  \<open>toggleMark\<close>, \<open>setBlockType\<close>, \<open>wrapIn\<close> and \<open>wrapInList\<close> build are kept as
  symbolic descriptors: a constructor for each function, holding the arguments of the call.
  A \<open>throw new Error(message)\<close> is the value \<open>Inl (Error message)\<close>.
\<close>

subsection \<open>Declarations imported from ./types\<close>

text \<open>
  Modelled from the spec: the string enum \<open>EditorMenuTypes\<close> of \<open>./types\<close>, which the
  module imports and whose declaration is not among the source files. The members are the
  action identifiers the specification names (Strong, Italic, HeaderLevel1..3, Blockquote,
  OrderedList, BulletList, Link). The source uses the members Strong, Italic,
  HeaderLevel1..3 and Link by these names; the value of each member is the key of its
  entry in \<open>commandMapping\<close>, since the specification gives every identifier exactly one
  entry of the dispatch table and \<open>getCommand\<close> indexes the table by the member's value.
\<close>

record EditorMenuTypesEnum =
  Strong :: string
  Italic :: string
  HeaderLevel1 :: string
  HeaderLevel2 :: string
  HeaderLevel3 :: string
  Blockquote :: string
  OrderedList :: string
  BulletList :: string
  Link :: string

definition EditorMenuTypes :: EditorMenuTypesEnum where
  "EditorMenuTypes =
     \<lparr>Strong = ''strong'', Italic = ''em'',
      HeaderLevel1 = ''headerlevel1'', HeaderLevel2 = ''headerlevel2'',
      HeaderLevel3 = ''headerlevel3'', Blockquote = ''blockquote'',
      OrderedList = ''ordered_list'', BulletList = ''bullet_list'', Link = ''link''\<rparr>"

text \<open>\<open>Object.values\<close> of the enum object: the values of its members, in declaration order.\<close>

definition Object_values :: "EditorMenuTypesEnum \<Rightarrow> string list" where
  "Object_values e =
     [Strong e, Italic e, HeaderLevel1 e, HeaderLevel2 e, HeaderLevel3 e,
      Blockquote e, OrderedList e, BulletList e, Link e]"

text \<open>
  Modelled from the spec: the constant \<open>levelMapping\<close> of \<open>./types\<close>, not among the source
  files either. The source reads its properties \<open>one\<close>, \<open>two\<close> and \<open>three\<close>; the
  specification has the heading actions bind the numeric levels 1, 2 and 3.
\<close>

record LevelMapping =
  one :: int
  two :: int
  three :: int

definition levelMapping :: LevelMapping where
  "levelMapping = \<lparr>one = 1, two = 2, three = 3\<rparr>"

subsection \<open>Schema, commands and errors\<close>

text \<open>
  A ProseMirror schema, as far as the module reads it: the objects \<open>schema.marks\<close> and
  \<open>schema.nodes\<close>, from a name to a mark type or a node type. A name that is absent
  reads as \<open>undefined\<close>, here \<open>None\<close>.
\<close>

record ('m, 'n) Schema =
  marks :: "string \<rightharpoonup> 'm"
  nodes :: "string \<rightharpoonup> 'n"

text \<open>The attribute objects the module passes: \<open>{ href: url }\<close> and \<open>{ level: level }\<close>.\<close>

datatype AttrValue = StringValue string | NumberValue int

type_synonym Attrs = "(string \<times> AttrValue) list"

text \<open>
  A command, as the call that builds it: the library function and its arguments. The
  attributes are \<open>None\<close> where the source passes none.
\<close>

datatype ('m, 'n) Command =
    toggleMark 'm "Attrs option"
  | setBlockType 'n "Attrs option"
  | wrapIn 'n
  | wrapInList 'n

text \<open>Every failure of the module is a JavaScript \<open>Error\<close> that holds a message.\<close>

datatype error = Error string

type_synonym ('m, 'n) CommandFunction =
  "('m, 'n) Schema \<Rightarrow> string \<Rightarrow> string option \<Rightarrow> error + ('m, 'n) Command"

subsection \<open>The command builders\<close>

text \<open>
  \<open>markName === EditorMenuTypes.Link && url\<close> tests the URL for truthiness: an absent URL
  (\<open>None\<close>) and the empty string are both falsy.
\<close>

definition createToggleMarkCommand :: "('m, 'n) CommandFunction" where
  "createToggleMarkCommand schema markName url =
     (case marks schema markName of
        None \<Rightarrow> Inl (Error (''Mark \"'' @ markName @ ''\" not found in schema''))
      | Some markType \<Rightarrow>
          (case url of
             None \<Rightarrow> Inr (toggleMark markType None)
           | Some u \<Rightarrow>
               if markName = Link EditorMenuTypes \<and> u \<noteq> ''''
               then Inr (toggleMark markType (Some [(''href'', StringValue u)]))
               else Inr (toggleMark markType None)))"

text \<open>
  \<open>nodeType === 'heading' && level\<close> tests the level for truthiness: an absent level and
  the number 0 are both falsy.
\<close>

definition createSetNodeTypeCommand ::
  "('m, 'n) Schema \<Rightarrow> string \<Rightarrow> int option \<Rightarrow> error + ('m, 'n) Command" where
  "createSetNodeTypeCommand schema nodeType level =
     (case nodes schema nodeType of
        None \<Rightarrow> Inl (Error (''Node type \"'' @ nodeType @ ''\" not found in schema''))
      | Some type \<Rightarrow>
          (case level of
             None \<Rightarrow> Inr (setBlockType type None)
           | Some l \<Rightarrow>
               if nodeType = ''heading'' \<and> l \<noteq> 0
               then Inr (setBlockType type (Some [(''level'', NumberValue l)]))
               else Inr (setBlockType type None)))"

definition createWrapInCommand ::
  "('m, 'n) Schema \<Rightarrow> string \<Rightarrow> error + ('m, 'n) Command" where
  "createWrapInCommand schema nodeType =
     (case nodes schema nodeType of
        None \<Rightarrow> Inl (Error (''Node type \"'' @ nodeType @ ''\" not found in schema''))
      | Some type \<Rightarrow> Inr (wrapIn type))"

definition createListCommand ::
  "('m, 'n) Schema \<Rightarrow> string \<Rightarrow> error + ('m, 'n) Command" where
  "createListCommand schema listType =
     (case nodes schema listType of
        None \<Rightarrow> Inl (Error (''List type \"'' @ listType @ ''\" not found in schema''))
      | Some type \<Rightarrow> Inr (wrapInList type))"

subsection \<open>The dispatch table\<close>

text \<open>
  The object literal \<open>commandMapping\<close>, as the list of its properties in source order;
  \<open>commandMapping[mark]\<close> is \<open>map_of commandMapping mark\<close>. Every entry is called with
  \<open>(schema, mark, url)\<close>; a builder of two parameters ignores the URL, and the heading
  entries ignore the mark as well. (The properties an object literal inherits from its
  prototype are left out: \<open>getCommand\<close> indexes the table only with a value of the enum,
  and none of them is one.)
\<close>

definition commandMapping :: "(string \<times> ('m, 'n) CommandFunction) list" where
  "commandMapping =
     [(''strong'', createToggleMarkCommand),
      (''em'', createToggleMarkCommand),
      (''underline'', createToggleMarkCommand),
      (''headerlevel1'',
         \<lambda>schema mark url. createSetNodeTypeCommand schema ''heading'' (Some (one levelMapping))),
      (''headerlevel2'',
         \<lambda>schema mark url. createSetNodeTypeCommand schema ''heading'' (Some (two levelMapping))),
      (''headerlevel3'',
         \<lambda>schema mark url. createSetNodeTypeCommand schema ''heading'' (Some (three levelMapping))),
      (''blockquote'', \<lambda>schema mark url. createWrapInCommand schema mark),
      (''ordered_list'', \<lambda>schema mark url. createListCommand schema mark),
      (''bullet_list'', \<lambda>schema mark url. createListCommand schema mark),
      (''link'', createToggleMarkCommand)]"

subsection \<open>The factory\<close>

record ('m, 'n) MenuCommandFactory =
  schema :: "('m, 'n) Schema"

definition getCommand ::
  "('m, 'n) MenuCommandFactory \<Rightarrow> string \<Rightarrow> string option \<Rightarrow> error + ('m, 'n) Command" where
  "getCommand this mark url =
     (if mark \<notin> set (Object_values EditorMenuTypes)
      then Inl (Error (''The Menu Type \"'' @ mark @ ''\" is not supported''))
      else
        (case map_of commandMapping mark of
           None \<Rightarrow> Inl (Error (''The Mark \"'' @ mark @ ''\" is not supported''))
         | Some commandFunc \<Rightarrow> commandFunc (schema this) mark url))"

text \<open>
  \<open>buildKeymap\<close> evaluates the five properties of its object literal in source order; the
  first \<open>getCommand\<close> that throws ends the method with that error. The object returned is
  the list of its properties.
\<close>

definition buildKeymap ::
  "('m, 'n) MenuCommandFactory \<Rightarrow> error + (string \<times> ('m, 'n) Command) list" where
  "buildKeymap this =
     (case getCommand this (Strong EditorMenuTypes) None of
        Inl e \<Rightarrow> Inl e
      | Inr modB \<Rightarrow>
     (case getCommand this (Italic EditorMenuTypes) None of
        Inl e \<Rightarrow> Inl e
      | Inr modI \<Rightarrow>
     (case getCommand this (HeaderLevel1 EditorMenuTypes) None of
        Inl e \<Rightarrow> Inl e
      | Inr modShift1 \<Rightarrow>
     (case getCommand this (HeaderLevel2 EditorMenuTypes) None of
        Inl e \<Rightarrow> Inl e
      | Inr modShift2 \<Rightarrow>
     (case getCommand this (HeaderLevel3 EditorMenuTypes) None of
        Inl e \<Rightarrow> Inl e
      | Inr modShift3 \<Rightarrow>
          Inr [(''Mod-B'', modB), (''Mod-I'', modI), (''Mod-Shift-1'', modShift1),
               (''Mod-Shift-2'', modShift2), (''Mod-Shift-3'', modShift3)])))))"

subsection \<open>The enum with further members\<close>



subsection \<open>The fault kinds of the specification\<close>

text \<open>
  The specification names three kinds of fault. The source throws an \<open>Error\<close> for each,
  and what tells one kind from another is the message. \<open>signals e k\<close> says that the
  failure value \<open>e\<close> is one that the throw statement of kind \<open>k\<close> creates:
  \<^item> \<open>UnsupportedAction\<close>: the first throw of \<open>getCommand\<close> (the identifier is not a value
    of the enum);
  \<^item> \<open>MissingDispatchStrategy\<close>: the second throw of \<open>getCommand\<close> (the table has no entry);
  \<^item> \<open>CapabilityUnavailable\<close>: the throw of a command builder (the schema lacks the mark
    type or node type).
\<close>

datatype FaultKind = UnsupportedAction | MissingDispatchStrategy | CapabilityUnavailable

inductive signals :: "error \<Rightarrow> FaultKind \<Rightarrow> bool" where
  menu_type_not_supported:
    "signals (Error (''The Menu Type \"'' @ mark @ ''\" is not supported'')) UnsupportedAction"
| mark_not_supported:
    "signals (Error (''The Mark \"'' @ mark @ ''\" is not supported'')) MissingDispatchStrategy"
| mark_not_found:
    "signals (Error (''Mark \"'' @ markName @ ''\" not found in schema'')) CapabilityUnavailable"
| node_type_not_found:
    "signals (Error (''Node type \"'' @ nodeType @ ''\" not found in schema'')) CapabilityUnavailable"
| list_type_not_found:
    "signals (Error (''List type \"'' @ listType @ ''\" not found in schema'')) CapabilityUnavailable"



subsection \<open>An example schema\<close>

text \<open>
  A schema with every mark type and node type the dispatch table refers to; the handles
  are numbers. \<open>bareSchema\<close> has none of them.
\<close>

definition fullSchema :: "(nat, nat) Schema" where
  "fullSchema =
     \<lparr>marks = [''strong'' \<mapsto> 1, ''em'' \<mapsto> 2, ''underline'' \<mapsto> 3, ''link'' \<mapsto> 4],
      nodes = [''heading'' \<mapsto> 5, ''blockquote'' \<mapsto> 6, ''ordered_list'' \<mapsto> 7,
               ''bullet_list'' \<mapsto> 8]\<rparr>"

definition bareSchema :: "(nat, nat) Schema" where
  "bareSchema = \<lparr>marks = Map.empty, nodes = Map.empty\<rparr>"

section \<open>Properties\<close>

lemma Object_values_EditorMenuTypes:
  "Object_values EditorMenuTypes =
     [''strong'', ''em'', ''headerlevel1'', ''headerlevel2'', ''headerlevel3'',
      ''blockquote'', ''ordered_list'', ''bullet_list'', ''link'']"
  by (simp add: Object_values_def EditorMenuTypes_def)

subsection \<open>Unfolding the dispatch\<close>

lemma map_of_commandMapping:
  "map_of commandMapping ''strong'' = Some createToggleMarkCommand"
  "map_of commandMapping ''em'' = Some createToggleMarkCommand"
  "map_of commandMapping ''link'' = Some createToggleMarkCommand"
  "map_of commandMapping ''headerlevel1'' =
     Some (\<lambda>schema mark url. createSetNodeTypeCommand schema ''heading'' (Some (one levelMapping)))"
  "map_of commandMapping ''headerlevel2'' =
     Some (\<lambda>schema mark url. createSetNodeTypeCommand schema ''heading'' (Some (two levelMapping)))"
  "map_of commandMapping ''headerlevel3'' =
     Some (\<lambda>schema mark url. createSetNodeTypeCommand schema ''heading'' (Some (three levelMapping)))"
  "map_of commandMapping ''blockquote'' = Some (\<lambda>schema mark url. createWrapInCommand schema mark)"
  "map_of commandMapping ''ordered_list'' = Some (\<lambda>schema mark url. createListCommand schema mark)"
  "map_of commandMapping ''bullet_list'' = Some (\<lambda>schema mark url. createListCommand schema mark)"
  by (simp_all add: commandMapping_def)

lemma getCommand_dispatch:
  "getCommand this ''strong'' url = createToggleMarkCommand (schema this) ''strong'' url"
  "getCommand this ''em'' url = createToggleMarkCommand (schema this) ''em'' url"
  "getCommand this ''link'' url = createToggleMarkCommand (schema this) ''link'' url"
  "getCommand this ''headerlevel1'' url = createSetNodeTypeCommand (schema this) ''heading'' (Some 1)"
  "getCommand this ''headerlevel2'' url = createSetNodeTypeCommand (schema this) ''heading'' (Some 2)"
  "getCommand this ''headerlevel3'' url = createSetNodeTypeCommand (schema this) ''heading'' (Some 3)"
  "getCommand this ''blockquote'' url = createWrapInCommand (schema this) ''blockquote''"
  "getCommand this ''ordered_list'' url = createListCommand (schema this) ''ordered_list''"
  "getCommand this ''bullet_list'' url = createListCommand (schema this) ''bullet_list''"
  by (simp_all add: getCommand_def Object_values_EditorMenuTypes map_of_commandMapping
        levelMapping_def)

lemma getCommand_not_member:
  "mark \<notin> set (Object_values EditorMenuTypes) \<Longrightarrow>
   getCommand this mark url = Inl (Error (''The Menu Type \"'' @ mark @ ''\" is not supported''))"
  by (simp add: getCommand_def)

lemma EditorMenuTypes_members:
  "Strong EditorMenuTypes = ''strong''" "Italic EditorMenuTypes = ''em''"
  "HeaderLevel1 EditorMenuTypes = ''headerlevel1''" "HeaderLevel2 EditorMenuTypes = ''headerlevel2''"
  "HeaderLevel3 EditorMenuTypes = ''headerlevel3''" "Blockquote EditorMenuTypes = ''blockquote''"
  "OrderedList EditorMenuTypes = ''ordered_list''" "BulletList EditorMenuTypes = ''bullet_list''"
  "Link EditorMenuTypes = ''link''"
  by (simp_all add: EditorMenuTypes_def)

subsection \<open>Failure values and fault kinds\<close>

lemma signals_functional: "signals e k \<Longrightarrow> signals e k' \<Longrightarrow> k = k'"
  by (auto elim!: signals.cases)

lemmas signals_intros = signals.intros [simplified]

lemma createToggleMarkCommand_failure:
  "createToggleMarkCommand s n u = Inl e \<Longrightarrow> signals e CapabilityUnavailable"
  by (auto simp: createToggleMarkCommand_def intro: signals_intros split: option.splits if_splits)

lemma createSetNodeTypeCommand_failure:
  "createSetNodeTypeCommand s n l = Inl e \<Longrightarrow> signals e CapabilityUnavailable"
  by (auto simp: createSetNodeTypeCommand_def intro: signals_intros split: option.splits if_splits)

lemma createWrapInCommand_failure:
  "createWrapInCommand s n = Inl e \<Longrightarrow> signals e CapabilityUnavailable"
  by (auto simp: createWrapInCommand_def intro: signals_intros split: option.splits)

lemma createListCommand_failure:
  "createListCommand s n = Inl e \<Longrightarrow> signals e CapabilityUnavailable"
  by (auto simp: createListCommand_def intro: signals_intros split: option.splits)

text \<open>
  Every value of the enum has an entry in the dispatch table, so the second throw of
  \<open>getCommand\<close> is never reached: a failure for a value of the enum comes from a builder.
\<close>

lemma enum_member_iff:
  "mark \<in> set (Object_values EditorMenuTypes) \<longleftrightarrow>
     mark = ''strong'' \<or> mark = ''em'' \<or> mark = ''headerlevel1'' \<or> mark = ''headerlevel2'' \<or>
     mark = ''headerlevel3'' \<or> mark = ''blockquote'' \<or> mark = ''ordered_list'' \<or>
     mark = ''bullet_list'' \<or> mark = ''link''"
  by (simp add: Object_values_EditorMenuTypes)

lemma dispatch_table_complete:
  "mark \<in> set (Object_values EditorMenuTypes) \<Longrightarrow> \<exists>commandFunc. map_of commandMapping mark = Some commandFunc"
  unfolding enum_member_iff
  by (elim disjE) (simp_all add: map_of_commandMapping)

lemma getCommand_enum_failure:
  assumes "mark \<in> set (Object_values EditorMenuTypes)"
    and "getCommand this mark url = Inl e"
  shows "signals e CapabilityUnavailable"
  using assms unfolding enum_member_iff
  by (elim disjE)
    (simp_all add: getCommand_dispatch createToggleMarkCommand_failure
       createSetNodeTypeCommand_failure createWrapInCommand_failure createListCommand_failure)

lemma getCommand_failure_signals:
  assumes "getCommand this mark url = Inl e"
  shows "\<exists>k. signals e k"
proof (cases "mark \<in> set (Object_values EditorMenuTypes)")
  case False
  with assms have "e = Error (''The Menu Type \"'' @ mark @ ''\" is not supported'')"
    by (simp add: getCommand_not_member)
  then show ?thesis
    using signals.menu_type_not_supported by blast
next
  case True
  then have "signals e CapabilityUnavailable"
    using assms by (rule getCommand_enum_failure)
  then show ?thesis ..
qed

lemma shortcut_failure:
  assumes "mark \<in> set [Strong EditorMenuTypes, Italic EditorMenuTypes,
             HeaderLevel1 EditorMenuTypes, HeaderLevel2 EditorMenuTypes,
             HeaderLevel3 EditorMenuTypes]"
    and "getCommand this mark url = Inl e"
  shows "signals e CapabilityUnavailable"
proof -
  from assms(1) have "mark \<in> set (Object_values EditorMenuTypes)"
    by (auto simp: Object_values_def)
  then show ?thesis
    using assms(2) by (rule getCommand_enum_failure)
qed

subsection \<open>Causes of faults and the failures reported\<close>
















subsection \<open>The first failure ends buildKeymap\<close>

lemma buildKeymap_first_failure:
  "getCommand this (Strong EditorMenuTypes) None = Inl e \<Longrightarrow> buildKeymap this = Inl e"
  "getCommand this (Strong EditorMenuTypes) None = Inr c1 \<Longrightarrow>
   getCommand this (Italic EditorMenuTypes) None = Inl e \<Longrightarrow> buildKeymap this = Inl e"
  "getCommand this (Strong EditorMenuTypes) None = Inr c1 \<Longrightarrow>
   getCommand this (Italic EditorMenuTypes) None = Inr c2 \<Longrightarrow>
   getCommand this (HeaderLevel1 EditorMenuTypes) None = Inl e \<Longrightarrow> buildKeymap this = Inl e"
  "getCommand this (Strong EditorMenuTypes) None = Inr c1 \<Longrightarrow>
   getCommand this (Italic EditorMenuTypes) None = Inr c2 \<Longrightarrow>
   getCommand this (HeaderLevel1 EditorMenuTypes) None = Inr c3 \<Longrightarrow>
   getCommand this (HeaderLevel2 EditorMenuTypes) None = Inl e \<Longrightarrow> buildKeymap this = Inl e"
  "getCommand this (Strong EditorMenuTypes) None = Inr c1 \<Longrightarrow>
   getCommand this (Italic EditorMenuTypes) None = Inr c2 \<Longrightarrow>
   getCommand this (HeaderLevel1 EditorMenuTypes) None = Inr c3 \<Longrightarrow>
   getCommand this (HeaderLevel2 EditorMenuTypes) None = Inr c4 \<Longrightarrow>
   getCommand this (HeaderLevel3 EditorMenuTypes) None = Inl e \<Longrightarrow> buildKeymap this = Inl e"
  by (simp_all add: buildKeymap_def)

subsection \<open>Every action of the enum resolves on a full schema\<close>

text \<open>
  C1. For every action identifier of the enum \<open>EditorMenuTypes\<close>, \<open>getCommand\<close> on a
  schema whose marks hold strong, em, underline and link and whose nodes hold heading,
  blockquote, ordered_list and bullet_list returns a command (\<open>Inr\<close>) and does not
  throw, whatever the URL argument.
\<close>

theorem getCommand_returns_for_every_action:
  assumes marks: "{''strong'', ''em'', ''underline'', ''link''} \<subseteq> dom (marks (schema this))"
    and nodes: "{''heading'', ''blockquote'', ''ordered_list'', ''bullet_list''}
                  \<subseteq> dom (nodes (schema this))"
    and mark: "mark \<in> set (Object_values EditorMenuTypes)"
  shows "\<exists>command. getCommand this mark url = Inr command"
proof -
  from marks obtain strong em link where
    m: "marks (schema this) ''strong'' = Some strong" "marks (schema this) ''em'' = Some em"
       "marks (schema this) ''link'' = Some link"
    by (auto simp: dom_def)
  from nodes obtain heading blockquote ol ul where
    n: "nodes (schema this) ''heading'' = Some heading"
       "nodes (schema this) ''blockquote'' = Some blockquote"
       "nodes (schema this) ''ordered_list'' = Some ol"
       "nodes (schema this) ''bullet_list'' = Some ul"
    by (auto simp: dom_def)
  from mark show ?thesis
    unfolding enum_member_iff
    by (elim disjE)
      (simp_all add: getCommand_dispatch createToggleMarkCommand_def
         createSetNodeTypeCommand_def createWrapInCommand_def createListCommand_def m n
         split: option.split)
qed

theorem getCommand_returns_for_every_action_witness:
  "{''strong'', ''em'', ''underline'', ''link''} \<subseteq> dom (marks fullSchema) \<and>
   {''heading'', ''blockquote'', ''ordered_list'', ''bullet_list''} \<subseteq> dom (nodes fullSchema) \<and>
   ''blockquote'' \<in> set (Object_values EditorMenuTypes) \<and>
   (\<exists>command. getCommand \<lparr>schema = fullSchema\<rparr> ''blockquote'' None = Inr command)"
proof -
  have marks: "{''strong'', ''em'', ''underline'', ''link''} \<subseteq> dom (marks fullSchema)"
    by (simp add: fullSchema_def)
  have nodes: "{''heading'', ''blockquote'', ''ordered_list'', ''bullet_list''}
                 \<subseteq> dom (nodes fullSchema)"
    by (simp add: fullSchema_def)
  have mark: "''blockquote'' \<in> set (Object_values EditorMenuTypes)"
    by (simp add: Object_values_EditorMenuTypes)
  from getCommand_returns_for_every_action
         [of "\<lparr>schema = fullSchema\<rparr>" "''blockquote''" None] marks nodes mark
  show ?thesis by simp
qed

subsection \<open>The link action and its URL\<close>

text \<open>
  C2, as amended. For every non-empty URL string \<open>u\<close>, \<open>getCommand\<close> for the Link action
  with \<open>u\<close>, on a schema that has the link mark, returns the toggle command of that mark
  with the attributes \<open>{ href: u }\<close>, the URL unchanged; without a URL argument it
  returns the toggle command with no attributes. (The claim as written, for every URL
  string, fails at the empty string: see the counterexample below and C10.)
\<close>

theorem link_carries_nonempty_url:
  assumes "marks (schema this) ''link'' = Some linkType"
    and "u \<noteq> ''''"
  shows "getCommand this (Link EditorMenuTypes) (Some u) =
           Inr (toggleMark linkType (Some [(''href'', StringValue u)])) \<and>
         getCommand this (Link EditorMenuTypes) None = Inr (toggleMark linkType None)"
  using assms
  by (simp add: EditorMenuTypes_members getCommand_dispatch createToggleMarkCommand_def)

theorem link_carries_nonempty_url_witness:
  "marks (schema \<lparr>schema = fullSchema\<rparr>) ''link'' = Some 4 \<and> ''https://lime.tech'' \<noteq> '''' \<and>
   getCommand \<lparr>schema = fullSchema\<rparr> (Link EditorMenuTypes) (Some ''https://lime.tech'') =
     Inr (toggleMark 4 (Some [(''href'', StringValue ''https://lime.tech'')])) \<and>
   getCommand \<lparr>schema = fullSchema\<rparr> (Link EditorMenuTypes) None = Inr (toggleMark 4 None)"
proof -
  have link: "marks (schema \<lparr>schema = fullSchema\<rparr>) ''link'' = Some 4"
    by (simp add: fullSchema_def)
  have url: "''https://lime.tech'' \<noteq> ''''"
    by simp
  from link url link_carries_nonempty_url [OF link url] show ?thesis
    by simp
qed

text \<open>
  The counterexample to C2 as written: with the empty string as the URL, on a schema that
  has the link mark, the command returned has no attributes, so it does not carry the URL
  given as its href.
\<close>

theorem link_empty_url_counterexample:
  "marks (schema \<lparr>schema = fullSchema\<rparr>) ''link'' = Some 4 \<and>
   getCommand \<lparr>schema = fullSchema\<rparr> (Link EditorMenuTypes) (Some '''') =
     Inr (toggleMark 4 None) \<and>
   getCommand \<lparr>schema = fullSchema\<rparr> (Link EditorMenuTypes) (Some '''') \<noteq>
     Inr (toggleMark 4 (Some [(''href'', StringValue '''')]))"
  by (simp add: EditorMenuTypes_members getCommand_dispatch createToggleMarkCommand_def
        fullSchema_def)

text \<open>
  C10. For the Link action the empty string as URL is treated as an absent URL:
  \<open>getCommand\<close> on a schema that has the link mark returns the plain toggle command,
  with no href attribute, the same command as without a URL argument.
\<close>

theorem link_empty_url_as_absent:
  assumes "marks (schema this) ''link'' = Some linkType"
  shows "getCommand this (Link EditorMenuTypes) (Some '''') = Inr (toggleMark linkType None) \<and>
         getCommand this (Link EditorMenuTypes) (Some '''') =
           getCommand this (Link EditorMenuTypes) None"
  using assms
  by (simp add: EditorMenuTypes_members getCommand_dispatch createToggleMarkCommand_def)

theorem link_empty_url_as_absent_witness:
  "marks (schema \<lparr>schema = fullSchema\<rparr>) ''link'' = Some 4 \<and>
   getCommand \<lparr>schema = fullSchema\<rparr> (Link EditorMenuTypes) (Some '''') =
     Inr (toggleMark 4 None) \<and>
   getCommand \<lparr>schema = fullSchema\<rparr> (Link EditorMenuTypes) (Some '''') =
     getCommand \<lparr>schema = fullSchema\<rparr> (Link EditorMenuTypes) None"
proof -
  have link: "marks (schema \<lparr>schema = fullSchema\<rparr>) ''link'' = Some 4"
    by (simp add: fullSchema_def)
  show ?thesis
    by (rule conjI [OF link link_empty_url_as_absent [OF link]])
qed

subsection \<open>Heading levels\<close>

text \<open>
  C4. For each heading action HeaderLevelN, N in 1, 2, 3, \<open>getCommand\<close> on a schema that
  has the heading node returns the set-block-type command of that node with the attributes
  \<open>{ level: N }\<close>.
\<close>

theorem heading_level_bound:
  assumes "nodes (schema this) ''heading'' = Some heading"
  shows "getCommand this (HeaderLevel1 EditorMenuTypes) url =
           Inr (setBlockType heading (Some [(''level'', NumberValue 1)])) \<and>
         getCommand this (HeaderLevel2 EditorMenuTypes) url =
           Inr (setBlockType heading (Some [(''level'', NumberValue 2)])) \<and>
         getCommand this (HeaderLevel3 EditorMenuTypes) url =
           Inr (setBlockType heading (Some [(''level'', NumberValue 3)]))"
  using assms
  by (simp add: EditorMenuTypes_members getCommand_dispatch createSetNodeTypeCommand_def)

theorem heading_level_bound_witness:
  "nodes (schema \<lparr>schema = fullSchema\<rparr>) ''heading'' = Some 5 \<and>
   getCommand \<lparr>schema = fullSchema\<rparr> (HeaderLevel1 EditorMenuTypes) None =
     Inr (setBlockType 5 (Some [(''level'', NumberValue 1)])) \<and>
   getCommand \<lparr>schema = fullSchema\<rparr> (HeaderLevel2 EditorMenuTypes) None =
     Inr (setBlockType 5 (Some [(''level'', NumberValue 2)])) \<and>
   getCommand \<lparr>schema = fullSchema\<rparr> (HeaderLevel3 EditorMenuTypes) None =
     Inr (setBlockType 5 (Some [(''level'', NumberValue 3)]))"
proof -
  have heading: "nodes (schema \<lparr>schema = fullSchema\<rparr>) ''heading'' = Some 5"
    by (simp add: fullSchema_def)
  from heading heading_level_bound [OF heading, of None] show ?thesis
    by simp
qed

subsection \<open>Fault kinds\<close>



text \<open>
  C5. \<open>getCommand\<close> for the Strong action on a schema whose marks lack strong fails with
  the failure of the kind capability-unavailable (the message of the mark builder), which
  is not a failure of the kind unsupported-action.
\<close>

theorem strong_missing_capability_unavailable:
  assumes "marks (schema this) ''strong'' = None"
  shows "getCommand this (Strong EditorMenuTypes) url =
           Inl (Error ''Mark \"strong\" not found in schema'') \<and>
         signals (Error ''Mark \"strong\" not found in schema'') CapabilityUnavailable \<and>
         \<not> signals (Error ''Mark \"strong\" not found in schema'') UnsupportedAction"
proof -
  have kind: "signals (Error ''Mark \"strong\" not found in schema'') CapabilityUnavailable"
    using signals.mark_not_found [of "''strong''"] by simp
  then have "\<not> signals (Error ''Mark \"strong\" not found in schema'') UnsupportedAction"
    using signals_functional by fastforce
  moreover have "getCommand this (Strong EditorMenuTypes) url =
      Inl (Error ''Mark \"strong\" not found in schema'')"
    using assms
    by (simp add: EditorMenuTypes_members getCommand_dispatch createToggleMarkCommand_def)
  ultimately show ?thesis
    using kind by simp
qed

theorem strong_missing_capability_unavailable_witness:
  "marks (schema \<lparr>schema = bareSchema\<rparr>) ''strong'' = None \<and>
   getCommand \<lparr>schema = bareSchema\<rparr> (Strong EditorMenuTypes) None =
     Inl (Error ''Mark \"strong\" not found in schema'') \<and>
   signals (Error ''Mark \"strong\" not found in schema'') CapabilityUnavailable \<and>
   \<not> signals (Error ''Mark \"strong\" not found in schema'') UnsupportedAction"
proof -
  have lacks: "marks (schema \<lparr>schema = bareSchema\<rparr>) ''strong'' = None"
    by (simp add: bareSchema_def)
  show ?thesis
    by (rule conjI [OF lacks strong_missing_capability_unavailable [OF lacks]])
qed

text \<open>
  C6. For every identifier that is not a value of the enum, \<open>getCommand\<close> fails with the
  failure of the kind unsupported-action, and of no other kind. The failure is the same
  for every factory and URL: the schema and the dispatch table play no part in it.
\<close>

theorem unknown_identifier_unsupported_action:
  assumes "mark \<notin> set (Object_values EditorMenuTypes)"
  shows "getCommand this mark url =
           Inl (Error (''The Menu Type \"'' @ mark @ ''\" is not supported'')) \<and>
         (\<forall>k. signals (Error (''The Menu Type \"'' @ mark @ ''\" is not supported'')) k
                \<longleftrightarrow> k = UnsupportedAction) \<and>
         getCommand other mark url' = getCommand this mark url"
proof -
  have kind: "signals (Error (''The Menu Type \"'' @ mark @ ''\" is not supported''))
                UnsupportedAction"
    by (rule signals.menu_type_not_supported)
  then have "\<forall>k. signals (Error (''The Menu Type \"'' @ mark @ ''\" is not supported'')) k
                \<longleftrightarrow> k = UnsupportedAction"
    using signals_functional by blast
  moreover have "getCommand other mark url' = getCommand this mark url"
    by (simp add: getCommand_not_member [OF assms])
  ultimately show ?thesis
    using getCommand_not_member [OF assms] by blast
qed

theorem unknown_identifier_unsupported_action_witness:
  "''bold'' \<notin> set (Object_values EditorMenuTypes) \<and>
   getCommand \<lparr>schema = fullSchema\<rparr> ''bold'' None =
     Inl (Error ''The Menu Type \"bold\" is not supported'') \<and>
   getCommand \<lparr>schema = bareSchema\<rparr> ''bold'' (Some ''u'') =
     Inl (Error ''The Menu Type \"bold\" is not supported'') \<and>
   signals (Error ''The Menu Type \"bold\" is not supported'') UnsupportedAction \<and>
   \<not> signals (Error ''The Menu Type \"bold\" is not supported'') CapabilityUnavailable"
proof -
  have unknown: "''bold'' \<notin> set (Object_values EditorMenuTypes)"
    by (simp add: Object_values_EditorMenuTypes)
  from unknown_identifier_unsupported_action
         [OF unknown, of "\<lparr>schema = fullSchema\<rparr>" None "\<lparr>schema = bareSchema\<rparr>" "Some ''u''"]
    unknown
  show ?thesis by simp
qed

subsection \<open>The keymap\<close>

text \<open>
  C7. On a schema that has the marks strong and em and the node heading, \<open>buildKeymap\<close>
  returns exactly five bindings, with the keys Mod-B, Mod-I, Mod-Shift-1, Mod-Shift-2 and
  Mod-Shift-3 in this order, each bound to the command that \<open>getCommand\<close> returns for
  bold, italic and the heading levels 1, 2 and 3.
\<close>

theorem buildKeymap_five_bindings:
  assumes "marks (schema this) ''strong'' = Some strong"
    and "marks (schema this) ''em'' = Some em"
    and "nodes (schema this) ''heading'' = Some heading"
  shows "\<exists>keymap.
           buildKeymap this = Inr keymap \<and>
           length keymap = 5 \<and>
           map fst keymap = [''Mod-B'', ''Mod-I'', ''Mod-Shift-1'', ''Mod-Shift-2'', ''Mod-Shift-3''] \<and>
           map (\<lambda>binding. Inr (snd binding)) keymap =
             map (\<lambda>mark. getCommand this mark None)
               [Strong EditorMenuTypes, Italic EditorMenuTypes, HeaderLevel1 EditorMenuTypes,
                HeaderLevel2 EditorMenuTypes, HeaderLevel3 EditorMenuTypes] \<and>
           keymap =
             [(''Mod-B'', toggleMark strong None),
              (''Mod-I'', toggleMark em None),
              (''Mod-Shift-1'', setBlockType heading (Some [(''level'', NumberValue 1)])),
              (''Mod-Shift-2'', setBlockType heading (Some [(''level'', NumberValue 2)])),
              (''Mod-Shift-3'', setBlockType heading (Some [(''level'', NumberValue 3)]))]"
  using assms
  by (simp add: buildKeymap_def EditorMenuTypes_members getCommand_dispatch
        createToggleMarkCommand_def createSetNodeTypeCommand_def)

theorem buildKeymap_five_bindings_witness:
  "buildKeymap \<lparr>schema = fullSchema\<rparr> =
     Inr [(''Mod-B'', toggleMark 1 None),
          (''Mod-I'', toggleMark 2 None),
          (''Mod-Shift-1'', setBlockType 5 (Some [(''level'', NumberValue 1)])),
          (''Mod-Shift-2'', setBlockType 5 (Some [(''level'', NumberValue 2)])),
          (''Mod-Shift-3'', setBlockType 5 (Some [(''level'', NumberValue 3)]))]"
proof -
  have strong: "marks (schema \<lparr>schema = fullSchema\<rparr>) ''strong'' = Some 1"
    and em: "marks (schema \<lparr>schema = fullSchema\<rparr>) ''em'' = Some 2"
    and heading: "nodes (schema \<lparr>schema = fullSchema\<rparr>) ''heading'' = Some 5"
    by (simp_all add: fullSchema_def)
  from buildKeymap_five_bindings [OF strong em heading] show ?thesis
    by auto
qed

text \<open>
  C8. If one of the five shortcut actions cannot be resolved, \<open>buildKeymap\<close> returns no
  bindings at all: it fails with the failure that \<open>getCommand\<close> returns for the first of
  the five, in source order, that cannot be resolved. That is the failure of the action
  itself when it is the first to fail, and in every case a failure of the same kind
  (capability-unavailable).
\<close>

theorem buildKeymap_fails_as_getCommand:
  assumes "mark \<in> set [Strong EditorMenuTypes, Italic EditorMenuTypes,
             HeaderLevel1 EditorMenuTypes, HeaderLevel2 EditorMenuTypes,
             HeaderLevel3 EditorMenuTypes]"
    and "getCommand this mark None = Inl e"
  shows "\<exists>first e'.
           find (\<lambda>m. isl (getCommand this m None))
             [Strong EditorMenuTypes, Italic EditorMenuTypes, HeaderLevel1 EditorMenuTypes,
              HeaderLevel2 EditorMenuTypes, HeaderLevel3 EditorMenuTypes] = Some first \<and>
           getCommand this first None = Inl e' \<and>
           buildKeymap this = Inl e' \<and>
           (first = mark \<longrightarrow> e' = e) \<and>
           signals e CapabilityUnavailable \<and> signals e' CapabilityUnavailable"
proof -
  let ?g = "\<lambda>m. getCommand this m None"
  let ?shortcuts = "[Strong EditorMenuTypes, Italic EditorMenuTypes,
    HeaderLevel1 EditorMenuTypes, HeaderLevel2 EditorMenuTypes, HeaderLevel3 EditorMenuTypes]"
  have kind: "signals e CapabilityUnavailable"
    using assms by (rule shortcut_failure)
  have first: "\<exists>first e'. find (\<lambda>m. isl (?g m)) ?shortcuts = Some first \<and>
      first \<in> set ?shortcuts \<and> ?g first = Inl e' \<and> buildKeymap this = Inl e'"
  proof (cases "?g (Strong EditorMenuTypes)")
    case (Inl e1)
    then show ?thesis
      using buildKeymap_first_failure(1) [OF Inl] by auto
  next
    case c1: (Inr c1)
    show ?thesis
    proof (cases "?g (Italic EditorMenuTypes)")
      case (Inl e2)
      then show ?thesis
        using c1 buildKeymap_first_failure(2) [OF c1 Inl] by auto
    next
      case c2: (Inr c2)
      show ?thesis
      proof (cases "?g (HeaderLevel1 EditorMenuTypes)")
        case (Inl e3)
        then show ?thesis
          using c1 c2 buildKeymap_first_failure(3) [OF c1 c2 Inl] by auto
      next
        case c3: (Inr c3)
        show ?thesis
        proof (cases "?g (HeaderLevel2 EditorMenuTypes)")
          case (Inl e4)
          then show ?thesis
            using c1 c2 c3 buildKeymap_first_failure(4) [OF c1 c2 c3 Inl] by auto
        next
          case c4: (Inr c4)
          show ?thesis
          proof (cases "?g (HeaderLevel3 EditorMenuTypes)")
            case (Inl e5)
            then show ?thesis
              using c1 c2 c3 c4 buildKeymap_first_failure(5) [OF c1 c2 c3 c4 Inl]
              by auto
          next
            case c5: (Inr c5)
            with assms c1 c2 c3 c4 show ?thesis
              by auto
          qed
        qed
      qed
    qed
  qed
  then obtain first e' where f:
    "find (\<lambda>m. isl (?g m)) ?shortcuts = Some first" "first \<in> set ?shortcuts"
    "?g first = Inl e'" "buildKeymap this = Inl e'"
    by blast
  from f(2,3) have "signals e' CapabilityUnavailable"
    by (rule shortcut_failure)
  with f kind assms(2) show ?thesis
    by auto
qed

theorem buildKeymap_fails_as_getCommand_witness:
  "Italic EditorMenuTypes \<in> set [Strong EditorMenuTypes, Italic EditorMenuTypes,
     HeaderLevel1 EditorMenuTypes, HeaderLevel2 EditorMenuTypes, HeaderLevel3 EditorMenuTypes] \<and>
   getCommand \<lparr>schema = \<lparr>marks = [''strong'' \<mapsto> 1::nat], nodes = [''heading'' \<mapsto> 5::nat]\<rparr>\<rparr>
     (Italic EditorMenuTypes) None = Inl (Error ''Mark \"em\" not found in schema'') \<and>
   buildKeymap \<lparr>schema = \<lparr>marks = [''strong'' \<mapsto> 1::nat], nodes = [''heading'' \<mapsto> 5::nat]\<rparr>\<rparr>
     = Inl (Error ''Mark \"em\" not found in schema'')"
proof -
  let ?factory = "\<lparr>schema = \<lparr>marks = [''strong'' \<mapsto> 1::nat], nodes = [''heading'' \<mapsto> 5::nat]\<rparr>\<rparr>"
  have italic: "Italic EditorMenuTypes \<in> set [Strong EditorMenuTypes, Italic EditorMenuTypes,
      HeaderLevel1 EditorMenuTypes, HeaderLevel2 EditorMenuTypes, HeaderLevel3 EditorMenuTypes]"
    by simp
  have fails: "getCommand ?factory (Italic EditorMenuTypes) None =
      Inl (Error ''Mark \"em\" not found in schema'')"
    by (simp add: EditorMenuTypes_members getCommand_dispatch createToggleMarkCommand_def)
  have strong: "getCommand ?factory (Strong EditorMenuTypes) None = Inr (toggleMark 1 None)"
    by (simp add: EditorMenuTypes_members getCommand_dispatch createToggleMarkCommand_def)
  from buildKeymap_fails_as_getCommand [OF italic fails]
  obtain first e' where
    "find (\<lambda>m. isl (getCommand ?factory m None))
       [Strong EditorMenuTypes, Italic EditorMenuTypes, HeaderLevel1 EditorMenuTypes,
        HeaderLevel2 EditorMenuTypes, HeaderLevel3 EditorMenuTypes] = Some first"
    and "buildKeymap ?factory = Inl e'" and "first = Italic EditorMenuTypes \<longrightarrow>
      e' = Error ''Mark \"em\" not found in schema''"
    by blast
  with strong fails have "buildKeymap ?factory = Inl (Error ''Mark \"em\" not found in schema'')"
    by simp
  with italic fails show ?thesis
    by blast
qed

end
